theory Spec2Isabelle
  imports Main "HOL-Library.Word"
begin

unbundle bit_operations_syntax

section \<open>Machine integers and addresses\<close>

type_synonym u8 = "8 word"
type_synonym u16 = "16 word"
type_synonym u32 = "32 word"
type_synonym u64 = "64 word"

text \<open>
  The \<open>memory\<close> package is not among the sources. Its \<open>Pointer\<close> is used by the
  debugger and the CGA adapter as an unsigned integer (it is compared with \<open>0\<close>,
  subtracted, masked and used as an array index); the specification describes it as a
  linear address in \<open>[0, 0x100000)\<close>. It is carried here in a 32-bit word, the width the
  validator uses for addresses, and every array access by a pointer checks its range.
\<close>

type_synonym Pointer = u32

text \<open>
  Modelled from the spec: \<open>memory.NewPointer\<close> is missing from the sources. The
  specification gives \<open>linear = (segment << 4) + offset\<close>, with wrap at \<open>2^20\<close>.
\<close>

definition NewPointer :: "u16 \<Rightarrow> u16 \<Rightarrow> Pointer" where
  "NewPointer seg off = (push_bit 4 (ucast seg) + ucast off) AND 0xFFFFF"

text \<open>
  Go's signed 64-bit integers (\<open>int64\<close>, and \<open>int\<close> on a 64-bit platform) are
  integers with the two's complement wrap-around written out; its \<open>/\<close> and \<open>%\<close>
  truncate towards zero.
\<close>

definition wrap64 :: "int \<Rightarrow> int" where
  "wrap64 x = (x + 2 ^ 63) mod 2 ^ 64 - 2 ^ 63"

definition go_div :: "int \<Rightarrow> int \<Rightarrow> int" where
  "go_div a b = sgn a * sgn b * (\<bar>a\<bar> div \<bar>b\<bar>)"


section \<open>The memory and IO bus\<close>

text \<open>
  The devices a bus entry can name. \<open>OpenBus\<close> is the default owner of every address
  and port.
\<close>

datatype device = OpenBus | CGA | Debugger | Peripheral nat

datatype error = AddressOverlap | PortOverlap | ErrQuit | IndexOutOfRange

text \<open>
  The processor's dispatch tables: one owner for each of the \<open>2^20\<close> byte addresses
  and for each of the \<open>2^16\<close> ports. A fixed-size array is a function of its index.
\<close>

record Bus =
  mmap :: "nat \<Rightarrow> device"
  iomap :: "nat \<Rightarrow> device"

definition bus_empty :: Bus where
  "bus_empty = \<lparr>mmap = (\<lambda>_. OpenBus), iomap = (\<lambda>_. OpenBus)\<rparr>"

text \<open>
  Modelled from the spec: the processor's \<open>InstallMemoryDevice\<close> is missing from the
  sources. The specification: it claims a byte range, fails with \<open>AddressOverlap\<close> if
  any byte is already owned, overwrites the entries of the requested inclusive range,
  and detects an overlap by comparing with the default open-bus device.
\<close>

definition InstallMemoryDevice :: "Bus \<Rightarrow> device \<Rightarrow> Pointer \<Rightarrow> Pointer \<Rightarrow> error + Bus" where
  "InstallMemoryDevice bus dev from to =
     (if \<exists>a \<in> {unat from .. unat to}. mmap bus a \<noteq> OpenBus then Inl AddressOverlap
      else Inr (bus\<lparr>mmap := (\<lambda>a. if unat from \<le> a \<and> a \<le> unat to then dev else mmap bus a)\<rparr>))"

text \<open>
  Modelled from the spec: the processor's \<open>InstallIODevice\<close> is missing from the
  sources. The specification: it claims a port range with the same install discipline
  and fails with \<open>PortOverlap\<close>.
\<close>

definition InstallIODevice :: "Bus \<Rightarrow> device \<Rightarrow> u16 \<Rightarrow> u16 \<Rightarrow> error + Bus" where
  "InstallIODevice bus dev from to =
     (if \<exists>a \<in> {unat from .. unat to}. iomap bus a \<noteq> OpenBus then Inl PortOverlap
      else Inr (bus\<lparr>iomap := (\<lambda>a. if unat from \<le> a \<and> a \<le> unat to then dev else iomap bus a)\<rparr>))"

text \<open>\<open>GetMappedMemoryDevice\<close>: the owner of an address.\<close>

definition GetMappedMemoryDevice :: "Bus \<Rightarrow> Pointer \<Rightarrow> device" where
  "GetMappedMemoryDevice bus a = mmap bus (unat a)"

section \<open>The CGA adapter\<close>

definition memorySize :: Pointer where
  "memorySize = 0x4000"

definition memoryBase :: Pointer where
  "memoryBase = 0xB8000"

definition scanlineTiming :: int where
  "scanlineTiming = 31469"

text \<open>
  The device's fields. The lock, the channels, the ticker and the processor handle carry
  no data of their own. \<open>mem\<close> has \<open>memorySize\<close> bytes and \<open>crtReg\<close> 256; both are
  functions of the index. The time stamp and the scanline counter are Go's signed
  integers.
\<close>

record cga_Device =
  dirtyMemory :: u32
  mem :: "nat \<Rightarrow> u8"
  crtReg :: "u8 \<Rightarrow> u8"
  crtAddr :: u8
  modeCtrlReg :: u8
  colorCtrlReg :: u8
  statusReg :: u8
  lastScanline :: int
  currentScanline :: int
  cursorVisible :: bool
  prevCursorState :: bool
  cursorPosition :: u16
  surface :: "u8 list"
  atomicCycleCounter :: u32

text \<open>A device as Go allocates it: every field has its zero value.\<close>

definition cga_zero :: cga_Device where
  "cga_zero = \<lparr>dirtyMemory = 0, mem = (\<lambda>_. 0), crtReg = (\<lambda>_. 0), crtAddr = 0,
     modeCtrlReg = 0, colorCtrlReg = 0, statusReg = 0, lastScanline = 0,
     currentScanline = 0, cursorVisible = False, prevCursorState = False,
     cursorPosition = 0, surface = [], atomicCycleCounter = 0\<rparr>"

text \<open>
  \<open>Install\<close>: \<open>rnd\<close> is what \<open>rand.Read\<close> writes into the framebuffer. The memory
  range requested ends at \<open>memoryBase + memorySize * 2\<close>. The first failing
  installation returns its error, with the device as it is by then; the render task
  started at the end is concurrent and is not part of this function.
\<close>

definition cga_Install :: "(nat \<Rightarrow> u8) \<Rightarrow> Bus \<Rightarrow> cga_Device \<Rightarrow> error option \<times> cga_Device \<times> Bus" where
  "cga_Install rnd bus m =
     (let m1 = m\<lparr>mem := (\<lambda>i. if i < unat memorySize then rnd i else mem m i)\<rparr> in
      case InstallMemoryDevice bus CGA memoryBase (memoryBase + memorySize * 2) of
        Inl err \<Rightarrow> (Some err, m1, bus)
      | Inr bus1 \<Rightarrow>
          (case InstallIODevice bus1 CGA 0x3D0 0x3DF of
             Inl err \<Rightarrow> (Some err, m1, bus1)
           | Inr bus2 \<Rightarrow> (None, m1\<lparr>surface := replicate (640 * 200 * 4) 0\<rparr>, bus2)))"

text \<open>\<open>Reset\<close>: \<open>now\<close> is the clock reading \<open>time.Now().UnixNano()\<close>.\<close>

definition cga_Reset :: "int \<Rightarrow> cga_Device \<Rightarrow> cga_Device" where
  "cga_Reset now m =
     m\<lparr>lastScanline := now, currentScanline := 0, colorCtrlReg := 0x20, modeCtrlReg := 1,
       statusReg := 0, cursorVisible := True, cursorPosition := 0\<rparr>"


text \<open>\<open>In\<close>: the byte read and the device after the read.\<close>

definition cga_In :: "u16 \<Rightarrow> cga_Device \<Rightarrow> u8 \<times> cga_Device" where
  "cga_In port m =
     (if port \<in> {0x3D1, 0x3D3, 0x3D5, 0x3D7} then (crtReg m (crtAddr m), m)
      else if port = 0x3DA then
        (let status = statusReg m in (status, m\<lparr>statusReg := statusReg m AND 0xFE\<rparr>))
      else if port = 0x3D9 then (colorCtrlReg m, m)
      else (0, m))"


text \<open>
  The address decode of the framebuffer: the offset from \<open>memoryBase\<close>, masked with
  \<open>memorySize - 1\<close>.
\<close>

definition cga_index :: "Pointer \<Rightarrow> nat" where
  "cga_index addr = unat ((addr - memoryBase) AND (memorySize - 1))"

definition cga_ReadByte :: "Pointer \<Rightarrow> cga_Device \<Rightarrow> u8" where
  "cga_ReadByte addr m = mem m (cga_index addr)"

definition cga_WriteByte :: "Pointer \<Rightarrow> u8 \<Rightarrow> cga_Device \<Rightarrow> cga_Device" where
  "cga_WriteByte addr data m =
     m\<lparr>dirtyMemory := 1, mem := (mem m)(cga_index addr := data)\<rparr>"



section \<open>The debugger\<close>

text \<open>
  The processor's registers, of which the debugger's control flow reads \<open>CS\<close> and \<open>IP\<close>
  and writes \<open>Debug\<close>; the other registers are only printed.
\<close>

record Registers =
  CS :: u16
  IP :: u16
  Debug :: bool

text \<open>
  The \<open>memory.Memory\<close> interface of a device that owns addresses, over the state \<open>'w\<close>
  of the devices behind the debugger.
\<close>

record 'w Memory =
  ReadByte :: "Pointer \<Rightarrow> 'w \<Rightarrow> u8"
  WriteByte :: "Pointer \<Rightarrow> u8 \<Rightarrow> 'w \<Rightarrow> 'w"

text \<open>
  What the debugger calls and does not define: the method table of each device, the
  processor's \<open>ReadByte\<close> and \<open>GetStats\<close>, \<open>OpcodeName\<close> (in a file of the package that is
  not among the sources), and the two uses of \<open>fmt.Sscanf\<close>: a hexadecimal \<open>uint16\<close>
  (\<open>%x\<close>) and a decimal \<open>int\<close> (\<open>%d\<close>), \<open>None\<close> when nothing was scanned.
\<close>

record 'w Env =
  devs :: "device \<Rightarrow> 'w Memory"
  p_ReadByte :: "Pointer \<Rightarrow> 'w \<Rightarrow> u8"
  p_GetStats :: "'w \<Rightarrow> nat"
  OpcodeName :: "u8 \<Rightarrow> string"
  scanHex :: "string \<Rightarrow> u16 option"
  scanInt :: "string \<Rightarrow> int option"

text \<open>
  What the debugger prints, one value for each call of the logger; the numbers and
  strings printed are kept, their layout is not.
\<close>

datatype log_msg =
    LogBreak
  | LogLine string
  | LogBreakpointHit nat
  | LogPrompt string u16
  | LogRegisters Registers
  | LogVideo
  | LogLostInstructions u64
  | LogClearTrace
  | LogAt Pointer string
  | LogClearBreakpoints
  | LogBreakpoints "u16 list"
  | LogMemMap
  | LogCodeOffset u16
  | LogInvalidHistoryRange
  | LogBreakpointSet u16
  | LogBreakpointRemoved int u16
  | LogMemory string
  | LogUnknownCommand string
  | LogBIOSError u8

text \<open>
  The debugger's fields, with what they share: \<open>regs\<close> is \<open>m.r\<close>, the processor's
  registers; \<open>debugBreak\<close> and \<open>traceInstructions\<close> are the package's variables; \<open>out\<close>
  is the log; \<open>world\<close> is the state of the devices behind the debugger.
  \<open>historyChan\<close> is the buffer of the channel, oldest entry first; its capacity is
  \<open>historyCap\<close>, as \<open>Install\<close> makes it. \<open>mips\<close> is a floating-point quotient of
  \<open>stats\<close> that is only printed, and is left out.
\<close>

record 'w debug_Device =
  historyChan :: "string list"
  numInstructionsLost :: u64
  lastInstruction :: Pointer
  breakOnIRET :: bool
  stats :: nat
  updateStats :: int
  breakpoints :: "u16 list"
  codeOffset :: u16
  memPeripherals :: "nat \<Rightarrow> device"
  regs :: Registers
  debugBreak :: bool
  traceInstructions :: bool
  out :: "log_msg list"
  world :: 'w

definition historyCap :: nat where
  "historyCap = 128"

definition logmsg :: "log_msg \<Rightarrow> 'w debug_Device \<Rightarrow> 'w debug_Device" where
  "logmsg x s = s\<lparr>out := out s @ [x]\<rparr>"

text \<open>
  \<open>Install\<close>: the history channel is made, the owner of every address is recorded, and
  the debugger requests the whole address range. \<open>now\<close> is the clock reading. An error
  of the installation is returned with the device as it is by then.
\<close>

definition debug_Install :: "int \<Rightarrow> Bus \<Rightarrow> 'w debug_Device \<Rightarrow> error option \<times> 'w debug_Device \<times> Bus" where
  "debug_Install now bus s =
     (let s1 = s\<lparr>historyChan := [],
                 memPeripherals := (\<lambda>i. if i < 0x100000 then GetMappedMemoryDevice bus (of_nat i)
                                        else memPeripherals s i)\<rparr> in
      case InstallMemoryDevice bus Debugger 0x0 0xFFFFF of
        Inl err \<Rightarrow> (Some err, s1, bus)
      | Inr bus1 \<Rightarrow> (None, s1\<lparr>updateStats := now\<rparr>, bus1))"

text \<open>Upper-case hexadecimal without leading zeros, the \<open>%X\<close> of \<open>fmt\<close>.\<close>

definition hexDigit :: "nat \<Rightarrow> char" where
  "hexDigit n = ''0123456789ABCDEF'' ! n"

function hexX :: "nat \<Rightarrow> string" where
  "hexX n = (if n < 16 then [hexDigit n] else hexX (n div 16) @ [hexDigit (n mod 16)])"
  by pat_completeness auto
termination
  by (relation "measure id") auto

definition instructionToString :: "'w Env \<Rightarrow> u8 \<Rightarrow> string" where
  "instructionToString E op = OpcodeName E op @ '' (0x'' @ hexX (unat op) @ '')''"

definition csToString :: "'w debug_Device \<Rightarrow> string" where
  "csToString s =
     (if CS (regs s) = 0xF000 then ''BIOS''
      else if CS (regs s) = 0x7C00 then ''BOOT''
      else ''0x'' @ hexX (unat (CS (regs s))))"

definition setCodeOffset :: "'w Env \<Rightarrow> string \<Rightarrow> 'w debug_Device \<Rightarrow> 'w debug_Device" where
  "setCodeOffset E off s =
     (case scanHex E off of
        Some v \<Rightarrow> (logmsg (LogCodeOffset v) s)\<lparr>codeOffset := v\<rparr>
      | None \<Rightarrow> s)"

definition showBreakpoints :: "'w debug_Device \<Rightarrow> 'w debug_Device" where
  "showBreakpoints s = logmsg (LogBreakpoints (breakpoints s)) s"

definition setBreakpoint :: "'w Env \<Rightarrow> string \<Rightarrow> 'w debug_Device \<Rightarrow> 'w debug_Device" where
  "setBreakpoint E br s =
     (case scanHex E br of
        Some b \<Rightarrow> (logmsg (LogBreakpointSet b) s)\<lparr>breakpoints := breakpoints s @ [b]\<rparr>
      | None \<Rightarrow> s)"

text \<open>
  \<open>removeBreakpoint\<close> checks the index against the length only; a negative index
  passes the check and the read of \<open>m.breakpoints[i]\<close> panics.
\<close>

definition removeBreakpoint :: "'w Env \<Rightarrow> string \<Rightarrow> 'w debug_Device \<Rightarrow> error option \<times> 'w debug_Device" where
  "removeBreakpoint E br s =
     (case scanInt E br of
        Some i \<Rightarrow>
          (if i < int (length (breakpoints s)) then
             (if i < 0 then (Some IndexOutOfRange, s)
              else (None, (logmsg (LogBreakpointRemoved i (breakpoints s ! nat i)) s)
                      \<lparr>breakpoints := take (nat i) (breakpoints s) @ drop (nat i + 1) (breakpoints s)\<rparr>))
           else (None, s))
      | None \<Rightarrow> (None, s))"

text \<open>
  The loop of \<open>showHistory\<close>: while \<open>i\<close> is below the length of the channel and below
  \<open>num\<close>, an entry is received from the channel, printed, and sent to the channel again.
  A receive from an empty channel would block; the loop condition excludes it.
\<close>

function showHistory_loop :: "int \<Rightarrow> int \<Rightarrow> 'w debug_Device \<Rightarrow> 'w debug_Device" where
  "showHistory_loop i num s =
     (if i < int (length (historyChan s)) \<and> i < num then
        (case historyChan s of
           [] \<Rightarrow> s
         | inst # rest \<Rightarrow>
             showHistory_loop (i + 1) num
               ((logmsg (LogLine inst) s)\<lparr>historyChan := rest @ [inst]\<rparr>))
      else s)"
  by pat_completeness auto
termination
  by (relation "measure (\<lambda>(i, num, s). nat (num - i))") auto

definition showHistory :: "int \<Rightarrow> 'w debug_Device \<Rightarrow> 'w debug_Device" where
  "showHistory num s =
     showHistory_loop 0 num (logmsg (LogLostInstructions (numInstructionsLost s)) s)"

definition showHistoryWithLength :: "'w Env \<Rightarrow> string \<Rightarrow> 'w debug_Device \<Rightarrow> 'w debug_Device" where
  "showHistoryWithLength E hl s =
     (case scanInt E hl of
        Some num \<Rightarrow> showHistory (if num \<le> 0 then 0xFFFFF else num) s
      | None \<Rightarrow> logmsg LogInvalidHistoryRange s)"

text \<open>
  \<open>pushHistory\<close>: the send succeeds while the channel has room; otherwise one entry is
  received, the lost count goes up, and the entry is sent.
\<close>

definition pushHistory :: "string \<Rightarrow> 'w debug_Device \<Rightarrow> 'w debug_Device" where
  "pushHistory inst s =
     (if length (historyChan s) < historyCap then s\<lparr>historyChan := historyChan s @ [inst]\<rparr>
      else s\<lparr>historyChan := tl (historyChan s) @ [inst],
             numInstructionsLost := numInstructionsLost s + 1\<rparr>)"

text \<open>The \<open>drainHistory\<close> loop of the command \<open>ct\<close>.\<close>

function drainHistory :: "'w debug_Device \<Rightarrow> 'w debug_Device" where
  "drainHistory s =
     (case historyChan s of
        [] \<Rightarrow> s
      | inst # rest \<Rightarrow>
          drainHistory (s\<lparr>historyChan := rest, numInstructionsLost := numInstructionsLost s + 1\<rparr>))"
  by pat_completeness auto
termination
  by (relation "measure (\<lambda>s. length (historyChan s))") auto

definition Break :: "'w debug_Device \<Rightarrow> 'w debug_Device" where
  "Break s = s\<lparr>debugBreak := True, regs := (regs s)\<lparr>Debug := True\<rparr>\<rparr>"

definition Continue :: "'w debug_Device \<Rightarrow> 'w debug_Device" where
  "Continue s = s\<lparr>debugBreak := False, regs := (regs s)\<lparr>Debug := False\<rparr>\<rparr>"

text \<open>
  \<open>ReadByte\<close> and \<open>WriteByte\<close>: the table of owners has \<open>0x100000\<close> entries, and an
  address beyond it panics.
\<close>

definition debug_ReadByte :: "'w Env \<Rightarrow> Pointer \<Rightarrow> 'w debug_Device \<Rightarrow> error + u8" where
  "debug_ReadByte E addr s =
     (if unat addr < 0x100000
      then Inr (ReadByte (devs E (memPeripherals s (unat addr))) addr (world s))
      else Inl IndexOutOfRange)"

definition debug_WriteByte :: "'w Env \<Rightarrow> Pointer \<Rightarrow> u8 \<Rightarrow> 'w debug_Device \<Rightarrow> error + 'w debug_Device" where
  "debug_WriteByte E addr data s =
     (if unat addr < 0x100000 then
        (let s1 = s\<lparr>world := WriteByte (devs E (memPeripherals s (unat addr))) addr data (world s)\<rparr>
         in Inr (if data \<noteq> 0 \<and> addr = NewPointer 0x40 0x15
                 then Break (logmsg (LogBIOSError data) s1)
                 else s1))
      else Inl IndexOutOfRange)"

text \<open>
  The scan of the breakpoint list in \<open>Step\<close>: every entry equal to \<open>IP\<close> prints its
  index and breaks.
\<close>

fun scanBreakpoints :: "nat \<Rightarrow> u16 list \<Rightarrow> 'w debug_Device \<Rightarrow> 'w debug_Device" where
  "scanBreakpoints i [] s = s"
| "scanBreakpoints i (br # brs) s =
     scanBreakpoints (Suc i) brs
       (if IP (regs s) = br then Break (logmsg (LogBreakpointHit i) s) else s)"

text \<open>
  \<open>Step\<close> up to its command loop: the statistics are refreshed once a second, a set
  \<open>Debug\<close> flag and a pending interrupt signal break, the opcode at \<open>CS:IP\<close> is
  fetched, and the single-step, \<open>IRET\<close> and breakpoint rules run. \<open>now\<close> is the clock
  reading and \<open>sig\<close> tells whether the signal channel holds a signal. The result is the
  pointer \<open>ip\<close>, the opcode and the state in which the command loop starts.
\<close>

definition debug_Step_pre :: "'w Env \<Rightarrow> int \<Rightarrow> bool \<Rightarrow> 'w debug_Device \<Rightarrow> Pointer \<times> u8 \<times> 'w debug_Device" where
  "debug_Step_pre E now sig s =
     (let s1 = (if now - updateStats s \<ge> 1000000000
                then s\<lparr>stats := p_GetStats E (world s), updateStats := now\<rparr> else s);
          s2 = (if Debug (regs s1) then s1\<lparr>debugBreak := True\<rparr> else s1);
          s3 = (if sig then Break (logmsg LogBreak s2) else s2);
          ip = NewPointer (CS (regs s3)) (IP (regs s3));
          op = p_ReadByte E ip (world s3);
          inst = instructionToString E op;
          s4 = (if lastInstruction s3 > 0 \<and> lastInstruction s3 \<noteq> ip
                then logmsg (LogLine inst) ((Break s3)\<lparr>lastInstruction := 0\<rparr>) else s3);
          s5 = (if breakOnIRET s4 \<and> op = 0xCF
                then logmsg (LogLine inst) ((Break s4)\<lparr>breakOnIRET := False\<rparr>) else s4);
          s6 = scanBreakpoints 0 (breakpoints s5) s5
      in (ip, op, s6))"

text \<open>
  One command of the loop, in the order of the \<open>switch\<close>; the second case for \<open>t\<close> can
  never be taken. The commands that only print leave one entry in the log.
\<close>

definition command :: "'w Env \<Rightarrow> Pointer \<Rightarrow> u8 \<Rightarrow> string \<Rightarrow> 'w debug_Device \<Rightarrow> error option \<times> 'w debug_Device" where
  "command E ip op ln s =
     (if ln = ''q'' then (Some ErrQuit, s)
      else if ln = ''c'' then (None, Continue s)
      else if ln = [] \<or> ln = ''s'' then (None, (Continue s)\<lparr>lastInstruction := ip\<rparr>)
      else if ln = ''i'' then (None, (Continue s)\<lparr>breakOnIRET := True\<rparr>)
      else if ln = ''r'' then (None, logmsg (LogRegisters (regs s)) s)
      else if ln = ''v'' then (None, logmsg LogVideo s)
      else if ln = ''t'' then (None, showHistory 16 s)
      else if ln = ''ct'' then (None, drainHistory (logmsg LogClearTrace s))
      else if ln = ''@'' then
        (None, logmsg (LogAt (ip - ucast (codeOffset s)) (instructionToString E op)) s)
      else if ln = ''cb'' then (None, (logmsg LogClearBreakpoints s)\<lparr>breakpoints := []\<rparr>)
      else if ln = ''b'' then (None, showBreakpoints s)
      else if ln = ''p'' then (None, logmsg LogMemMap s)
      else if take 2 ln = ''o '' then (None, setCodeOffset E (drop 2 ln) s)
      else if take 2 ln = ''t '' then (None, showHistoryWithLength E (drop 2 ln) s)
      else if take 2 ln = ''b '' then (None, setBreakpoint E (drop 2 ln) s)
      else if take 3 ln = ''rb '' then removeBreakpoint E (drop 3 ln) s
      else if take 2 ln = ''m '' then (None, logmsg (LogMemory (drop 2 ln)) s)
      else (None, logmsg (LogUnknownCommand ln) s))"

definition prompt :: "'w debug_Device \<Rightarrow> 'w debug_Device" where
  "prompt s = logmsg (LogPrompt (csToString s) (IP (regs s) - codeOffset s)) s"

text \<open>
  The command loop, \<open>for debugBreak\<close>. The lines are what the successive calls of
  \<open>readLine\<close> return, one element for each call (each call scans the stream anew, so
  these need not be all the lines the stream ever held); after them the stream has ended
  and \<open>readLine\<close> returns the empty string, which is the command for a single step and
  ends the loop. The result is the error returned from within the loop, if any, the
  results of \<open>readLine\<close> not yet taken, and the state.
\<close>

fun repl :: "'w Env \<Rightarrow> Pointer \<Rightarrow> u8 \<Rightarrow> string list \<Rightarrow> 'w debug_Device
    \<Rightarrow> error option \<times> string list \<times> 'w debug_Device" where
  "repl E ip op [] s =
     (if debugBreak s then (fst (command E ip op [] (prompt s)), [], snd (command E ip op [] (prompt s)))
      else (None, [], s))"
| "repl E ip op (ln # rest) s =
     (if debugBreak s then
        (case command E ip op ln (prompt s) of
           (Some err, s1) \<Rightarrow> (Some err, rest, s1)
         | (None, s1) \<Rightarrow> repl E ip op rest s1)
      else (None, ln # rest, s))"


declare showHistory_loop.simps [simp del]
declare drainHistory.simps [simp del]
declare hexX.simps [simp del]


text \<open>
  An environment and states to run the debugger on: every address is owned by one flat
  memory, the opcode table names every opcode alike, and nothing is scanned.
\<close>

definition ram :: "(nat \<Rightarrow> u8) Memory" where
  "ram = \<lparr>ReadByte = (\<lambda>a w. w (unat a)), WriteByte = (\<lambda>a d w. w(unat a := d))\<rparr>"

definition env0 :: "(nat \<Rightarrow> u8) Env" where
  "env0 = \<lparr>devs = (\<lambda>_. ram), p_ReadByte = (\<lambda>a w. w (unat a)), p_GetStats = (\<lambda>_. 0),
     OpcodeName = (\<lambda>_. ''NOP''), scanHex = (\<lambda>_. None), scanInt = (\<lambda>_. None)\<rparr>"

text \<open>A debugger as Go allocates it, over the devices' state \<open>w\<close>.\<close>

definition debug_zero :: "'w \<Rightarrow> 'w debug_Device" where
  "debug_zero w = \<lparr>historyChan = [], numInstructionsLost = 0, lastInstruction = 0,
     breakOnIRET = False, stats = 0, updateStats = 0, breakpoints = [], codeOffset = 0,
     memPeripherals = (\<lambda>_. OpenBus), regs = \<lparr>CS = 0, IP = 0, Debug = False\<rparr>,
     debugBreak = False, traceInstructions = False, out = [], world = w\<rparr>"

definition debug_idle :: "(nat \<Rightarrow> u8) debug_Device" where
  "debug_idle = debug_zero (\<lambda>_. 0)"

text \<open>The debugger stopped at a break at \<open>cs:ip\<close>.\<close>

definition at_break :: "u16 \<Rightarrow> u16 \<Rightarrow> (nat \<Rightarrow> u8) debug_Device" where
  "at_break cs ip = (debug_idle)\<lparr>regs := \<lparr>CS = cs, IP = ip, Debug = True\<rparr>, debugBreak := True\<rparr>"

text \<open>The processor has moved on to \<open>cs:ip\<close>.\<close>

definition resumed_at :: "u16 \<Rightarrow> u16 \<Rightarrow> 'w debug_Device \<Rightarrow> 'w debug_Device" where
  "resumed_at cs ip s = s\<lparr>regs := (regs s)\<lparr>CS := cs, IP := ip\<rparr>\<rparr>"

definition with_breakpoints :: "u16 list \<Rightarrow> 'w debug_Device \<Rightarrow> 'w debug_Device" where
  "with_breakpoints brs s = s\<lparr>breakpoints := brs\<rparr>"

definition with_history :: "string list \<Rightarrow> 'w debug_Device \<Rightarrow> 'w debug_Device" where
  "with_history h s = s\<lparr>historyChan := h\<rparr>"

text \<open>Seventeen history entries, in the order they are pushed.\<close>

definition ring17 :: "string list" where
  "ring17 = [''i01'', ''i02'', ''i03'', ''i04'', ''i05'', ''i06'', ''i07'', ''i08'', ''i09'',
             ''i10'', ''i11'', ''i12'', ''i13'', ''i14'', ''i15'', ''i16'', ''i17'']"

section \<open>Properties of the CGA adapter\<close>

subsection \<open>Address decode\<close>

lemma mask14: "(0x3FFF :: u32) = mask 14"
  by (simp add: mask_eq_exp_minus_1)

lemma cga_index_in_range: "cga_index addr < unat memorySize"
  unfolding cga_index_def memorySize_def
  using take_bit_nat_less_exp [of 14 "unat (addr - memoryBase)"]
  by (simp add: mask14 unsigned_take_bit_eq flip: take_bit_eq_mask)

lemma low_window: "(k :: u32) < 0x4000 \<Longrightarrow> k AND 0x3FFF = k"
  unfolding mask14 by (rule less_mask_eq) simp

lemma high_window: "(k :: u32) < 0x4000 \<Longrightarrow> (k + 0x4000) AND 0x3FFF = k"
proof -
  assume k: "k < 0x4000"
  have "(k + 0x4000) AND mask 14 = (k + (0x4000 AND mask 14)) AND mask 14"
    by (simp only: mask_eqs)
  also have "(0x4000 :: u32) AND mask 14 = 0"
    by (simp add: mask_eq_exp_minus_1)
  finally show ?thesis
    using low_window [OF k] by (simp add: mask14)
qed

lemma cga_index_low: "k < 0x4000 \<Longrightarrow> cga_index (0xB8000 + k) = unat k"
  using low_window [of k] by (simp add: cga_index_def memoryBase_def memorySize_def)

lemma cga_index_high: "k < 0x4000 \<Longrightarrow> cga_index (0xBC000 + k) = unat k"
  using high_window [of k]
  by (simp add: cga_index_def memoryBase_def memorySize_def add.commute)

text \<open>
  Claim C1. For every \<open>k\<close> in \<open>[0, 0x4000)\<close> and every byte \<open>d\<close>, a byte written through
  \<open>WriteByte\<close> at \<open>0xB8000 + k\<close> is read back by \<open>ReadByte\<close> at \<open>0xBC000 + k\<close>, and a
  byte written at \<open>0xBC000 + k\<close> is read back at \<open>0xB8000 + k\<close>: both addresses decode to
  the framebuffer index \<open>k\<close>.
\<close>

theorem cga_framebuffer_aliasing:
  assumes "k < 0x4000"
  shows "cga_ReadByte (0xBC000 + k) (cga_WriteByte (0xB8000 + k) d m) = d
       \<and> cga_ReadByte (0xB8000 + k) (cga_WriteByte (0xBC000 + k) d m) = d
       \<and> cga_index (0xB8000 + k) = unat k
       \<and> cga_index (0xBC000 + k) = unat k"
  using assms
  by (simp add: cga_ReadByte_def cga_WriteByte_def cga_index_low cga_index_high)

theorem cga_framebuffer_aliasing_witness:
  "(0x123 :: Pointer) < 0x4000
   \<and> cga_ReadByte (0xBC000 + 0x123) (cga_WriteByte (0xB8000 + 0x123) 0x41 cga_zero) = 0x41
   \<and> cga_ReadByte (0xB8000 + 0x123) (cga_WriteByte (0xBC000 + 0x123) 0x41 cga_zero) = 0x41"
proof -
  have h: "(0x123 :: Pointer) < 0x4000" by simp
  show ?thesis
    using h cga_framebuffer_aliasing [OF h, of "0x41" cga_zero] by simp
qed

subsection \<open>Scanline counter\<close>


lemma wrap64_id: "- (2 ^ 63) \<le> x \<Longrightarrow> x < 2 ^ 63 \<Longrightarrow> wrap64 x = x"
  unfolding wrap64_def by (simp add: mod_pos_pos_trivial)









lemma elapsed_scanlines:
  "0 \<le> now - lastScanline m \<Longrightarrow> now - lastScanline m < 2 ^ 63 \<Longrightarrow>
   go_div (wrap64 (now - lastScanline m)) scanlineTiming = (now - lastScanline m) div 31469"
  by (cases "now - lastScanline m = 0") (simp_all add: wrap64_id go_div_def scanlineTiming_def)


subsection \<open>Status port\<close>

text \<open>
  Claim C6. A read of port \<open>0x3DA\<close> returns the stored status register; after it bit 0 of
  the stored register is clear, its other bits are unchanged and so is the rest of the
  device; the value of a second read that follows at once has bit 0 clear.
\<close>

theorem cga_status_latch:
  "fst (cga_In 0x3DA m) = statusReg m
   \<and> snd (cga_In 0x3DA m) = m\<lparr>statusReg := statusReg m AND 0xFE\<rparr>
   \<and> \<not> bit (statusReg (snd (cga_In 0x3DA m))) 0
   \<and> drop_bit 1 (statusReg (snd (cga_In 0x3DA m))) = drop_bit 1 (statusReg m)
   \<and> \<not> bit (fst (cga_In 0x3DA (snd (cga_In 0x3DA m)))) 0"
proof -
  have low7: "bit (127 :: int) n" if "bit (statusReg m) (Suc n)" for n
  proof -
    have "Suc n < 8" using that bit_imp_le_length by fastforce
    then have "bit (mask 7 :: int) n" by (simp add: bit_mask_iff)
    moreover have "(mask 7 :: int) = 127" by (simp add: mask_eq_exp_minus_1)
    ultimately show ?thesis by simp
  qed
  have keep: "drop_bit 1 (statusReg m AND 0xFE) = drop_bit 1 (statusReg m)"
    by (rule bit_word_eqI) (auto simp add: bit_simps intro: low7)
  have clear: "\<not> bit (statusReg m AND 0xFE) 0"
    by (simp add: bit_simps)
  show ?thesis
    using keep clear by (simp add: cga_In_def Let_def)
qed

subsection \<open>Reset\<close>

text \<open>
  Claim C10. \<open>Reset\<close> sets the color control register to \<open>0x20\<close>, the mode control
  register to 1, the status register to 0, the cursor visible, the cursor position to 0
  and the scanline counter to 0, and leaves the framebuffer, the CRT register file, the
  CRT address latch and the surface as they were.
\<close>

theorem cga_Reset_frame:
  "colorCtrlReg (cga_Reset now m) = 0x20
   \<and> modeCtrlReg (cga_Reset now m) = 1
   \<and> statusReg (cga_Reset now m) = 0
   \<and> cursorVisible (cga_Reset now m)
   \<and> cursorPosition (cga_Reset now m) = 0
   \<and> currentScanline (cga_Reset now m) = 0
   \<and> lastScanline (cga_Reset now m) = now
   \<and> mem (cga_Reset now m) = mem m
   \<and> crtReg (cga_Reset now m) = crtReg m
   \<and> crtAddr (cga_Reset now m) = crtAddr m
   \<and> surface (cga_Reset now m) = surface m
   \<and> dirtyMemory (cga_Reset now m) = dirtyMemory m
   \<and> prevCursorState (cga_Reset now m) = prevCursorState m
   \<and> atomicCycleCounter (cga_Reset now m) = atomicCycleCounter m"
  by (simp add: cga_Reset_def)

section \<open>Properties of the debugger\<close>

subsection \<open>History channel\<close>

lemma rotate_Suc_Cons: "rotate (Suc k) (x # rest) = rotate k (rest @ [x])"
  by (simp add: rotate_def funpow_swap1)

lemma showHistory_loop_rotate:
  "k = nat (min (int (length (historyChan s))) num - i) \<Longrightarrow> 0 \<le> i \<Longrightarrow>
   showHistory_loop i num s =
     s\<lparr>historyChan := rotate k (historyChan s),
       out := out s @ map LogLine (take k (historyChan s))\<rparr>"
proof (induction k arbitrary: i s)
  case 0
  then have "\<not> (i < int (length (historyChan s)) \<and> i < num)" by auto
  then show ?case by (subst showHistory_loop.simps) auto
next
  case (Suc k)
  then have c: "i < int (length (historyChan s)) \<and> i < num" by auto
  with Suc.prems(2) obtain x rest where h: "historyChan s = x # rest"
    by (cases "historyChan s") auto
  let ?s' = "(logmsg (LogLine x) s)\<lparr>historyChan := rest @ [x]\<rparr>"
  have k: "k = nat (min (int (length (historyChan ?s'))) num - (i + 1))"
    using Suc.prems h by (simp add: logmsg_def)
  have kl: "k \<le> length rest" using Suc.prems h by simp
  have "showHistory_loop i num s = showHistory_loop (i + 1) num ?s'"
    using c h by (subst showHistory_loop.simps) simp
  also have "\<dots> = ?s'\<lparr>historyChan := rotate k (historyChan ?s'),
       out := out ?s' @ map LogLine (take k (historyChan ?s'))\<rparr>"
    using Suc.prems by (intro Suc.IH [OF k]) simp
  finally show ?case
    using kl by (simp add: h logmsg_def rotate_Suc_Cons del: rotate_Suc)
qed

lemma showHistory_rotate:
  "0 \<le> num \<Longrightarrow>
   showHistory num s =
     s\<lparr>historyChan := rotate (min (length (historyChan s)) (nat num)) (historyChan s),
       out := out s @ LogLostInstructions (numInstructionsLost s)
                # map LogLine (take (min (length (historyChan s)) (nat num)) (historyChan s))\<rparr>"
proof -
  let ?s = "logmsg (LogLostInstructions (numInstructionsLost s)) s"
  have k: "min (length (historyChan s)) (nat num) = nat (min (int (length (historyChan ?s))) num - 0)"
    if "0 \<le> num" using that by (simp add: logmsg_def)
  assume "0 \<le> num"
  then show ?thesis
    unfolding showHistory_def
    by (subst showHistory_loop_rotate [OF k]) (simp_all add: logmsg_def)
qed


subsection \<open>The start of a step\<close>


lemma scanBreakpoints_mono:
  "debugBreak s \<and> Debug (regs s) \<Longrightarrow>
   debugBreak (scanBreakpoints i brs s) \<and> Debug (regs (scanBreakpoints i brs s))"
  by (induction brs arbitrary: i s) (simp_all add: Break_def logmsg_def)

lemma scanBreakpoints_hit:
  "IP (regs s) \<in> set brs \<Longrightarrow>
   debugBreak (scanBreakpoints i brs s) \<and> Debug (regs (scanBreakpoints i brs s))"
proof (induction brs arbitrary: i s)
  case Nil
  then show ?case by simp
next
  case (Cons br brs)
  show ?case
  proof (cases "IP (regs s) = br")
    case True
    then show ?thesis
      using scanBreakpoints_mono [of "Break (logmsg (LogBreakpointHit i) s)" "Suc i" brs]
      by (simp add: Break_def logmsg_def)
  next
    case False
    then show ?thesis using Cons by simp
  qed
qed



lemma debug_Step_pre_breakpoint:
  "IP (regs s) \<in> set (breakpoints s) \<Longrightarrow>
   debugBreak (snd (snd (debug_Step_pre E now sig s)))
   \<and> Debug (regs (snd (snd (debug_Step_pre E now sig s))))"
  unfolding debug_Step_pre_def Let_def snd_conv
  by (rule scanBreakpoints_hit) (simp add: Break_def logmsg_def)


subsection \<open>Single step\<close>



lemma command_single_step:
  "ln = [] \<or> ln = ''s'' \<Longrightarrow> command E ip op ln s = (None, (Continue s)\<lparr>lastInstruction := ip\<rparr>)"
  by (auto simp: command_def)


lemma repl_length: "length (fst (snd (repl E ip op lines s))) \<le> length lines"
proof (induction lines arbitrary: s)
  case Nil
  show ?case by simp
next
  case (Cons ln rest)
  show ?case
  proof (cases "debugBreak s")
    case False
    then show ?thesis by simp
  next
    case True
    obtain e s1 where c: "command E ip op ln (prompt s) = (e, s1)"
      by (cases "command E ip op ln (prompt s)") auto
    show ?thesis
      using True c Cons.IH [of s1] by (cases e) (simp_all add: le_SucI)
  qed
qed




text \<open>At the end of the input the loop takes a single step as well.\<close>

lemma repl_end_of_input:
  "debugBreak s \<Longrightarrow>
   repl E ip op [] s = (None, [], (Continue (prompt s))\<lparr>lastInstruction := ip\<rparr>)"
  by (simp add: command_single_step)






subsection \<open>Breakpoints\<close>

text \<open>
  Claim C4. When \<open>IP\<close> equals an offset of the breakpoint list, \<open>Step\<close> starts its command
  loop with the break asserted, whatever \<open>CS\<close> is: the same holds with any other code
  segment \<open>cs\<close> in place of the current one.
\<close>

theorem breakpoint_matches_IP_only:
  assumes "b \<in> set (breakpoints s)" and "IP (regs s) = b"
  shows "debugBreak (snd (snd (debug_Step_pre E now sig s)))
       \<and> Debug (regs (snd (snd (debug_Step_pre E now sig s))))
       \<and> debugBreak (snd (snd (debug_Step_pre E now sig (resumed_at cs b s))))
       \<and> Debug (regs (snd (snd (debug_Step_pre E now sig (resumed_at cs b s)))))"
proof -
  have "IP (regs s) \<in> set (breakpoints s)" using assms by simp
  moreover have "IP (regs (resumed_at cs b s)) \<in> set (breakpoints (resumed_at cs b s))"
    using assms by (simp add: resumed_at_def)
  ultimately show ?thesis
    using debug_Step_pre_breakpoint [of s E now sig]
      debug_Step_pre_breakpoint [of "resumed_at cs b s" E now sig]
    by simp
qed

theorem breakpoint_matches_IP_only_witness:
  "0x100 \<in> set (breakpoints (with_breakpoints [0x7C0, 0x100] (resumed_at 0x1000 0x100 (debug_idle))))
   \<and> IP (regs (with_breakpoints [0x7C0, 0x100] (resumed_at 0x1000 0x100 (debug_idle)))) = 0x100
   \<and> \<not> debugBreak (with_breakpoints [0x7C0, 0x100] (resumed_at 0x1000 0x100 (debug_idle)))
   \<and> debugBreak (snd (snd (debug_Step_pre env0 0 False
         (with_breakpoints [0x7C0, 0x100] (resumed_at 0x1000 0x100 (debug_idle))))))
   \<and> debugBreak (snd (snd (debug_Step_pre env0 0 False
         (resumed_at 0x2000 0x100
           (with_breakpoints [0x7C0, 0x100] (resumed_at 0x1000 0x100 (debug_idle)))))))"
proof -
  let ?s = "with_breakpoints [0x7C0, 0x100] (resumed_at 0x1000 0x100 (debug_idle))"
  have h1: "0x100 \<in> set (breakpoints ?s)" by (simp add: with_breakpoints_def)
  have h2: "IP (regs ?s) = 0x100"
    by (simp add: with_breakpoints_def resumed_at_def)
  have h3: "\<not> debugBreak ?s"
    by (simp add: with_breakpoints_def resumed_at_def debug_zero_def debug_idle_def)
  show ?thesis
    using h1 h2 h3 breakpoint_matches_IP_only [OF h1 h2, of env0 0 False "0x2000"] by simp
qed

lemma NewPointer_bios_error: "NewPointer 0x40 0x15 = 0x415"
  by (simp add: NewPointer_def)

subsection \<open>Memory overlay\<close>

text \<open>
  Claim C8. For an address \<open>a\<close> of the table, \<open>Install\<close> records the owner the bus had for
  \<open>a\<close>; \<open>ReadByte\<close> returns what the recorded owner returns; \<open>WriteByte\<close> forwards the
  write to the recorded owner, and breaks exactly when the byte is not zero and \<open>a\<close> is the
  linear address of \<open>0040:0015\<close>, which is \<open>0x415\<close>.
\<close>

theorem debug_write_rule:
  assumes "unat a < 0x100000"
  shows "memPeripherals (fst (snd (debug_Install now bus s0))) (unat a) = GetMappedMemoryDevice bus a
       \<and> debug_ReadByte E a s = Inr (ReadByte (devs E (memPeripherals s (unat a))) a (world s))
       \<and> (\<exists>s'. debug_WriteByte E a d s = Inr s'
            \<and> world s' = WriteByte (devs E (memPeripherals s (unat a))) a d (world s)
            \<and> memPeripherals s' = memPeripherals s
            \<and> (if d \<noteq> 0 \<and> a = NewPointer 0x40 0x15
                then debugBreak s' \<and> Debug (regs s') \<and> out s' = out s @ [LogBIOSError d]
                else debugBreak s' = debugBreak s \<and> regs s' = regs s \<and> out s' = out s))
       \<and> NewPointer 0x40 0x15 = 0x415"
  using assms
  by (simp add: debug_Install_def debug_ReadByte_def debug_WriteByte_def Let_def Break_def
      logmsg_def NewPointer_bios_error split: sum.splits)

theorem debug_write_rule_witness:
  "unat (0x415 :: Pointer) < 0x100000
   \<and> debug_ReadByte env0 0x415 (debug_idle) = Inr 0
   \<and> (\<exists>s'. debug_WriteByte env0 0x415 7 (debug_idle) = Inr s'
        \<and> world s' 0x415 = 7 \<and> debugBreak s' \<and> Debug (regs s') \<and> out s' = [LogBIOSError 7])
   \<and> (\<exists>s'. debug_WriteByte env0 0x416 7 (debug_idle) = Inr s'
        \<and> world s' 0x416 = 7 \<and> \<not> debugBreak s' \<and> \<not> Debug (regs s') \<and> out s' = [])
   \<and> (\<exists>s'. debug_WriteByte env0 0x415 0 (debug_idle) = Inr s'
        \<and> world s' 0x415 = 0 \<and> \<not> debugBreak s' \<and> \<not> Debug (regs s') \<and> out s' = [])"
proof -
  have h1: "unat (0x415 :: Pointer) < 0x100000" by simp
  have h2: "unat (0x416 :: Pointer) < 0x100000" by simp
  have z: "world (debug_idle) = (\<lambda>_. 0)" "out (debug_idle) = []"
    "debugBreak (debug_idle) = False"
    "regs (debug_idle) = \<lparr>CS = 0, IP = 0, Debug = False\<rparr>"
    by (simp_all add: debug_zero_def debug_idle_def)
  have e: "devs env0 = (\<lambda>_. ram)" by (simp add: env0_def)
  show ?thesis
    using h1 debug_write_rule [OF h1, of 0 bus_empty "debug_idle" env0 "debug_idle" 7]
      debug_write_rule [OF h2, of 0 bus_empty "debug_idle" env0 "debug_idle" 7]
      debug_write_rule [OF h1, of 0 bus_empty "debug_idle" env0 "debug_idle" 0]
    by (auto simp: z e ram_def NewPointer_bios_error)
qed

subsection \<open>History bound\<close>










subsection \<open>The command \<open>t\<close>\<close>

text \<open>
  What \<open>t\<close> does on any state: it prints the lost count and then the first sixteen
  entries of the channel, oldest first, each of which is received and sent again, so
  that the channel is left rotated by the number of entries printed.
\<close>

lemma command_t:
  "command E ip op ''t'' s =
     (None, s\<lparr>historyChan := rotate (min (length (historyChan s)) 16) (historyChan s),
              out := out s @ LogLostInstructions (numInstructionsLost s)
                       # map LogLine (take (min (length (historyChan s)) 16) (historyChan s))\<rparr>)"
  by (simp add: command_def showHistory_rotate)

lemma fold_pushHistory_room:
  "length (historyChan s) + length xs \<le> historyCap \<Longrightarrow>
   fold pushHistory xs s = s\<lparr>historyChan := historyChan s @ xs\<rparr>"
proof (induction xs arbitrary: s)
  case Nil
  then show ?case by simp
next
  case (Cons x xs)
  have "pushHistory x s = s\<lparr>historyChan := historyChan s @ [x]\<rparr>"
    using Cons.prems by (simp add: pushHistory_def)
  then show ?case using Cons.prems Cons.IH [of "pushHistory x s"] by simp
qed

lemma pushed_ring17:
  "fold pushHistory ring17 (at_break 0xF000 0x100) = with_history ring17 (at_break 0xF000 0x100)"
proof -
  have "length (historyChan (at_break 0xF000 0x100)) + length ring17 \<le> historyCap"
    by (simp add: at_break_def debug_idle_def debug_zero_def ring17_def historyCap_def)
  then show ?thesis
    by (simp add: fold_pushHistory_room with_history_def at_break_def debug_idle_def debug_zero_def)
qed

text \<open>
  Claim C5, on the code. The claim: with more than sixteen entries in the ring, \<open>t\<close>
  displays the sixteen most recently pushed entries and leaves the ring as it was. With
  seventeen entries pushed, the code displays the first sixteen pushed, which are not the
  last sixteen, and leaves the ring with the newest entry first and the sixteen displayed
  ones after it.
\<close>

theorem show_history_oldest_16:
  "historyChan (fold pushHistory ring17 (at_break 0xF000 0x100)) = ring17
   \<and> out (snd (command env0 0xF0100 0x90 ''t'' (fold pushHistory ring17 (at_break 0xF000 0x100))))
       = LogLostInstructions 0 # map LogLine (take 16 ring17)
   \<and> take 16 ring17 \<noteq> drop (length ring17 - 16) ring17
   \<and> historyChan (snd (command env0 0xF0100 0x90 ''t'' (fold pushHistory ring17 (at_break 0xF000 0x100))))
       = ''i17'' # take 16 ring17
   \<and> historyChan (snd (command env0 0xF0100 0x90 ''t'' (fold pushHistory ring17 (at_break 0xF000 0x100))))
       \<noteq> ring17"
proof -
  let ?s = "with_history ring17 (at_break 0xF000 0x100)"
  have f: "historyChan ?s = ring17" "out ?s = []" "numInstructionsLost ?s = 0"
    by (simp_all add: with_history_def at_break_def debug_idle_def debug_zero_def)
  have l: "length ring17 = 17" by (simp add: ring17_def)
  have r: "rotate 16 ring17 = ''i17'' # take 16 ring17"
    by (simp add: ring17_def rotate_def eval_nat_numeral)
  have d: "take 16 ring17 \<noteq> drop (length ring17 - 16) ring17"
    by (simp add: ring17_def)
  have n: "''i17'' # take 16 ring17 \<noteq> ring17"
    by (simp add: ring17_def)
  show ?thesis
    using d n by (simp add: pushed_ring17 command_t f l r)
qed

section \<open>Installation of the CGA adapter\<close>

lemma InstallMemoryDevice_claims:
  "InstallMemoryDevice bus dev from to = Inr bus1 \<Longrightarrow>
   mmap bus1 a = (if unat from \<le> a \<and> a \<le> unat to then dev else mmap bus a)"
  by (auto simp: InstallMemoryDevice_def split: if_splits)

lemma InstallIODevice_mmap:
  "InstallIODevice bus dev from to = Inr bus1 \<Longrightarrow> mmap bus1 = mmap bus"
  by (auto simp: InstallIODevice_def split: if_splits)

text \<open>
  After any successful \<open>Install\<close> the adapter owns the addresses from \<open>0xB8000\<close> to
  \<open>0xC0000\<close>, both included, and the other addresses keep their owner.
\<close>

lemma cga_Install_mmap:
  assumes "cga_Install rnd bus m = (None, m1, bus1)"
  shows "mmap bus1 a = (if 0xB8000 \<le> a \<and> a \<le> 0xC0000 then CGA else mmap bus a)"
  using assms
  by (auto simp: cga_Install_def Let_def memoryBase_def memorySize_def
      dest!: InstallMemoryDevice_claims [where a = a] InstallIODevice_mmap split: sum.splits)

text \<open>
  Claim C2, on the code. The claim: after a successful \<open>Install\<close> no address at or above
  \<open>0xC0000\<close> is routed to the adapter. \<open>Install\<close> requests the range that ends at
  \<open>memoryBase + memorySize * 2 = 0xC0000\<close>, and the end of a requested range is
  inclusive: on a bus with nothing installed, \<open>Install\<close> succeeds and \<open>0xC0000\<close> is
  routed to the adapter, where it decodes to the framebuffer index 0; \<open>0xC0001\<close> is not.
\<close>

theorem cga_Install_claims_0xC0000:
  "fst (cga_Install (\<lambda>_. 0) bus_empty cga_zero) = None
   \<and> GetMappedMemoryDevice (snd (snd (cga_Install (\<lambda>_. 0) bus_empty cga_zero))) 0xBFFFF = CGA
   \<and> GetMappedMemoryDevice (snd (snd (cga_Install (\<lambda>_. 0) bus_empty cga_zero))) 0xC0000 = CGA
   \<and> GetMappedMemoryDevice (snd (snd (cga_Install (\<lambda>_. 0) bus_empty cga_zero))) 0xC0001 = OpenBus
   \<and> memoryBase + memorySize * 2 = 0xC0000
   \<and> cga_index 0xC0000 = 0"
  by (simp add: cga_Install_def InstallMemoryDevice_def InstallIODevice_def bus_empty_def
      GetMappedMemoryDevice_def memoryBase_def memorySize_def Let_def cga_index_def)

end
